theory Spec2Isabelle
  imports Complex_Main "HOL-Library.AList"
begin

section \<open>JavaScript values used by the image server\<close>

text \<open>
  A JavaScript number is a binary64 value. The server never does arithmetic on the numbers
  it resolves: it tests them for truthiness, compares them with \<open><\<close> and prints them.
  Every finite binary64 value is a rational, so a finite number is modelled by its exact
  value; the two zeros are one value (both are falsy, compare alike and print as \<open>0\<close>).
\<close>

datatype jsnum = NaN | PInfinity | NInfinity | Finite rat

text \<open>The relational operator \<open><\<close> on numbers: false as soon as one side is NaN.\<close>

fun js_lt :: "jsnum \<Rightarrow> jsnum \<Rightarrow> bool" where
  "js_lt NaN y = False"
| "js_lt x NaN = False"
| "js_lt PInfinity y = False"
| "js_lt NInfinity NInfinity = False"
| "js_lt NInfinity y = True"
| "js_lt (Finite a) PInfinity = True"
| "js_lt (Finite a) NInfinity = False"
| "js_lt (Finite a) (Finite b) = (a < b)"

text \<open>ToBoolean on a number: NaN and zero are falsy.\<close>

definition truthy_num :: "jsnum \<Rightarrow> bool" where
  "truthy_num n = (n \<noteq> NaN \<and> n \<noteq> Finite 0)"

text \<open>
  A value of \<open>req.query\<close> as the query-string parser of Express delivers it: a string,
  an array or a nested object. A parameter that is not in the query string reads as
  \<open>undefined\<close>, the \<open>None\<close> of the map.
\<close>

datatype qval = QStr string | QArr "qval list" | QObj "(string \<times> qval) list"

type_synonym query = "string \<rightharpoonup> qval"

text \<open>ToBoolean on a query value: only the empty string is falsy.\<close>

fun truthy :: "qval \<Rightarrow> bool" where
  "truthy (QStr s) = (s \<noteq> [])"
| "truthy (QArr xs) = True"
| "truthy (QObj kvs) = True"

text \<open>A value stored in an options object: a number or a string.\<close>

datatype jsval = Num jsnum | Str string

text \<open>
  A plain object is a list of properties in insertion order, which is the order
  \<open>Object.keys\<close> reports (none of the keys here is an array index). Assigning to a
  property that exists keeps its position, assigning to a new one appends it:
  this is \<open>AList.update\<close>.
\<close>

type_synonym jsobj = "(string \<times> jsval) list"

definition Object_keys :: "jsobj \<Rightarrow> string list" where
  "Object_keys obj = map fst obj"

definition getProp :: "jsobj \<Rightarrow> string \<Rightarrow> jsval option" where
  "getProp obj k = map_of obj k"

definition setProp :: "string \<Rightarrow> jsval \<Rightarrow> jsobj \<Rightarrow> jsobj" where
  "setProp k v obj = AList.update k v obj"

text \<open>\<open>Array.prototype.includes\<close> with a query value as the needle: an array of strings
  contains it only when it is a string of the array (SameValueZero).\<close>

fun Array_includes :: "string list \<Rightarrow> qval \<Rightarrow> bool" where
  "Array_includes xs (QStr s) = (s \<in> set xs)"
| "Array_includes xs (QArr ys) = False"
| "Array_includes xs (QObj kvs) = False"

text \<open>A query value that passed \<open>Array_includes\<close> is stored as it is: a string.\<close>

fun qval_string :: "qval \<Rightarrow> string" where
  "qval_string (QStr s) = s"
| "qval_string (QArr ys) = []"
| "qval_string (QObj kvs) = []"

section \<open>The platform outside the repository\<close>

text \<open>
  The functions of the language runtime and of the libraries that the server calls.
  The definitions below take the platform as a parameter \<open>rt\<close>, and the general theorems
  hold for every platform.
  \<^item> \<open>Number\<close>: the conversion \<open>Number(v)\<close> of a query value;
  \<^item> \<open>numToString\<close>: the text of a number inside a template literal;
  \<^item> \<open>slug\<close>: the \<open>slug\<close> package called with
    \<open>{replacement: '-', lower: true, trim: true, symbols: true}\<close>;
  \<^item> \<open>path_join\<close>, \<open>path_normalize\<close>: \<open>path.join\<close> of two segments and \<open>path.normalize\<close>;
  \<^item> \<open>expiresAfter\<close>: \<open>new Date(Date.now() + t).toUTCString()\<close>, read at the moment of the call;
  \<^item> \<open>dirname\<close>: \<open>__dirname\<close> of the library module.
\<close>

record runtime =
  Number :: "qval \<Rightarrow> jsnum"
  numToString :: "jsnum \<Rightarrow> string"
  slug :: "string \<Rightarrow> string"
  path_join :: "string \<Rightarrow> string \<Rightarrow> string"
  path_normalize :: "string \<Rightarrow> string"
  expiresAfter :: "jsnum \<Rightarrow> string"
  dirname :: string

text \<open>ToString of an options value, as a template literal applies it.\<close>

fun valToString :: "runtime \<Rightarrow> jsval option \<Rightarrow> string" where
  "valToString rt None = ''undefined''"
| "valToString rt (Some (Str s)) = s"
| "valToString rt (Some (Num n)) = numToString rt n"

section \<open>Configuration\<close>

record ImgServerConfig =
  imgPath :: string
  cacheDir :: string
  cacheTime :: jsnum
  maxWidth :: jsnum
  maxHeight :: jsnum
  quality :: jsnum
  allowedExts :: "string list"
  defaultExt :: string
  return404 :: "bool option"
  timeout :: jsnum
  defaultImg :: string
  resizeMode :: string

definition resizeModesArray :: "string list" where
  "resizeModesArray = [''cover'', ''contain'', ''fill'']"

text \<open>The field \<open>_defaultConfig\<close> of the class, a constant of every server object.\<close>

definition defaultConfig :: "runtime \<Rightarrow> ImgServerConfig" where
  "defaultConfig rt =
     \<lparr> imgPath = dirname rt @ ''/uploads'',
       cacheDir = dirname rt @ ''/cache'',
       cacheTime = Finite (1000 * 60 * 60 * 24 * 7),
       maxWidth = Finite 1920,
       maxHeight = Finite 1080,
       quality = Finite 80,
       allowedExts = [''webp'', ''jpg'', ''jpeg'', ''png'', ''gif''],
       defaultExt = ''webp'',
       return404 = Some False,
       timeout = Finite 5000,
       defaultImg = ''default.jpg'',
       resizeMode = ''cover'' \<rparr>"

text \<open>The field \<open>_defaultRequestConfig\<close>, built from \<open>_defaultConfig\<close> in this key order.\<close>

definition defaultRequestConfig :: "runtime \<Rightarrow> jsobj" where
  "defaultRequestConfig rt =
     [ (''width'', Num (maxWidth (defaultConfig rt))),
       (''height'', Num (maxHeight (defaultConfig rt))),
       (''quality'', Num (quality (defaultConfig rt))),
       (''ext'', Str (defaultExt (defaultConfig rt))),
       (''resizeMode'', Str (resizeMode (defaultConfig rt))) ]"

text \<open>
  The spread \<open>{...this._defaultConfig, ...config}\<close>: every property of \<open>config\<close> wins.
  The interface makes every property mandatory except \<open>return404\<close>, which is \<open>None\<close>
  when the caller leaves it out and then keeps the default.
\<close>

definition mergeConfig :: "ImgServerConfig \<Rightarrow> ImgServerConfig \<Rightarrow> ImgServerConfig" where
  "mergeConfig d c =
     c \<lparr> return404 := (case return404 c of None \<Rightarrow> return404 d | Some b \<Rightarrow> Some b) \<rparr>"

section \<open>The server object\<close>

text \<open>
  The mutable fields of the class. \<open>cacheName\<close>, \<open>cachePath\<close> and \<open>timeoutFunction\<close>
  are \<open>undefined\<close> until a request assigns them. \<open>fileHeaders\<close> is the object
  \<open>_fileHeaders\<close>.
\<close>

record ImgServer =
  config :: ImgServerConfig
  timeoutFunction :: "nat option"
  cacheName :: "string option"
  cachePath :: "string option"
  fileHeaders :: "(string \<times> string) list"

section \<open>Option resolver\<close>

text \<open>
  \<open>parseOptions\<close> copies \<open>_defaultRequestConfig\<close> and assigns the five properties.
  Every bound and default is read from \<open>this._defaultConfig\<close>; \<open>this.config\<close> is not read.
\<close>

definition parseOptions :: "runtime \<Rightarrow> ImgServer \<Rightarrow> query \<Rightarrow> jsobj" where
  "parseOptions rt this q =
    (let options = defaultRequestConfig rt;
         options = setProp ''width''
           (Num (case q ''width'' of
                   None \<Rightarrow> maxWidth (defaultConfig rt)
                 | Some v \<Rightarrow>
                     if truthy v \<and> truthy_num (Number rt v)
                        \<and> js_lt (Number rt v) (maxWidth (defaultConfig rt))
                     then Number rt v else maxWidth (defaultConfig rt))) options;
         options = setProp ''height''
           (Num (case q ''height'' of
                   None \<Rightarrow> maxHeight (defaultConfig rt)
                 | Some v \<Rightarrow>
                     if truthy v \<and> truthy_num (Number rt v)
                        \<and> js_lt (Number rt v) (maxHeight (defaultConfig rt))
                     then Number rt v else maxHeight (defaultConfig rt))) options;
         options = setProp ''quality''
           (Num (case q ''quality'' of
                   None \<Rightarrow> quality (defaultConfig rt)
                 | Some v \<Rightarrow>
                     if truthy v \<and> truthy_num (Number rt v)
                        \<and> js_lt (Number rt v) (Finite 100)
                     then Number rt v else quality (defaultConfig rt))) options;
         options = setProp ''ext''
           (Str (case q ''ext'' of
                   None \<Rightarrow> defaultExt (defaultConfig rt)
                 | Some v \<Rightarrow>
                     if truthy v \<and> Array_includes (allowedExts (defaultConfig rt)) v
                     then qval_string v else defaultExt (defaultConfig rt))) options;
         options = setProp ''resizeMode''
           (Str (case q ''resizeMode'' of
                   None \<Rightarrow> resizeMode (defaultConfig rt)
                 | Some v \<Rightarrow>
                     if truthy v \<and> Array_includes resizeModesArray v
                     then qval_string v else resizeMode (defaultConfig rt))) options
     in options)"

section \<open>Cache key deriver\<close>

text \<open>\<open>String.prototype.lastIndexOf\<close> with a one-character needle: -1 when it is absent.\<close>

fun lastIndexOf :: "string \<Rightarrow> char \<Rightarrow> int" where
  "lastIndexOf [] c = -1"
| "lastIndexOf (x # xs) c =
     (let r = lastIndexOf xs c
      in if 0 \<le> r then r + 1 else if x = c then 0 else -1)"

text \<open>\<open>String.prototype.substring\<close>: both indices are clamped to the string, and
  swapped when the first is the larger one.\<close>

definition substring :: "string \<Rightarrow> int \<Rightarrow> int \<Rightarrow> string" where
  "substring s a b =
     (let n = int (length s);
          a' = min (max a 0) n;
          b' = min (max b 0) n;
          from = min a' b';
          to = max a' b'
      in take (nat (to - from)) (drop (nat from) s))"

text \<open>
  \<open>loadCacheName\<close>: the text \<open>-key-value\<close> for every key of the options object in the
  order of \<open>Object.keys\<close>, then \<open>-\<close> and the request path up to its last dot; the slug of
  that text, a dot and the resolved format.
\<close>

definition loadCacheName :: "runtime \<Rightarrow> string \<Rightarrow> jsobj \<Rightarrow> string" where
  "loadCacheName rt pth options =
     (let name = [];
          ext = ''.'' @ valToString rt (getProp options ''ext'');
          fileName = substring pth 0 (lastIndexOf pth CHR ''.'');
          name = foldl (\<lambda>acc key. acc @ ''-'' @ key @ ''-'' @ valToString rt (getProp options key))
                   name (Object_keys options);
          name = name @ ''-'' @ fileName
      in slug rt name @ ext)"

text \<open>The value of the local variable \<open>cacheName\<close> of \<open>loadCacheName\<close> at the moment it
  is passed to \<open>slug\<close>.\<close>

definition unsluggedName :: "runtime \<Rightarrow> string \<Rightarrow> jsobj \<Rightarrow> string" where
  "unsluggedName rt pth options =
     foldl (\<lambda>acc key. acc @ ''-'' @ key @ ''-'' @ valToString rt (getProp options key))
       [] (Object_keys options)
     @ ''-'' @ substring pth 0 (lastIndexOf pth CHR ''.'')"

section \<open>Response policy and request handling\<close>

text \<open>
  The calls the middleware makes on the response object \<open>res\<close>, in order.
  \<open>SendFile p (Some h)\<close> is \<open>res.sendFile(p, {headers: h})\<close>, \<open>SendFile p None\<close> is
  \<open>res.sendFile(p)\<close>; \<open>Status 404\<close> followed by \<open>Send ''404''\<close> is
  \<open>res.status(404).send('404')\<close>.
\<close>

datatype res_call =
    SendFile string "(string \<times> string) list option"
  | RemoveHeader string
  | Status nat
  | Send string

definition respondWith404 :: "runtime \<Rightarrow> ImgServer \<Rightarrow> res_call list" where
  "respondWith404 rt this =
     [RemoveHeader ''Cache-Control'', RemoveHeader ''Expires''] @
     (if return404 (config this) = Some True
      then [Status 404, Send ''404'']
      else [SendFile (path_normalize rt (defaultImg (config this))) None])"

record Request =
  path :: string
  query :: query

text \<open>
  What the world outside does during one request: whether the first \<open>sendFile\<close> of the
  cache path succeeds, whether the source file exists, whether \<open>getImg\<close> returns true,
  and whether the timer set with \<open>setTimeout\<close> fires while the handler waits for the
  existence check or for the transformation (it cannot fire once \<open>clearTimeout\<close> ran).
  \<open>timerId\<close> is the handle \<open>setTimeout\<close> returns.
\<close>

datatype timer_event = NotFired | FiredDuringExists | FiredDuringTransform

record outcome =
  cacheSent :: bool
  sourceExists :: bool
  transformed :: bool
  timer :: timer_event
  timerId :: nat

text \<open>The result of handling one request: the server object afterwards, the calls made
  on \<open>res\<close>, and the files \<open>getImg\<close> wrote.\<close>

record handled =
  after :: ImgServer
  calls :: "res_call list"
  written :: "string list"

definition middleware :: "runtime \<Rightarrow> ImgServer \<Rightarrow> Request \<Rightarrow> outcome \<Rightarrow> handled" where
  "middleware rt this req oc =
    (let options = parseOptions rt this (query req);
         name = loadCacheName rt (path req) options;
         this = this \<lparr> cacheName := Some name \<rparr>;
         cpath = path_join rt (cacheDir (config this)) name;
         this = this \<lparr> cachePath := Some cpath \<rparr>;
         fileName = path_join rt (imgPath (config this)) (path req);
         first = SendFile cpath (Some (fileHeaders this))
     in if cacheSent oc then \<lparr> after = this, calls = [first], written = [] \<rparr>
        else
          let this = this \<lparr> timeoutFunction := Some (timerId oc) \<rparr>;
              fired1 = (if timer oc = FiredDuringExists then respondWith404 rt this else [])
          in if \<not> sourceExists oc
             then \<lparr> after = this, calls = first # fired1 @ respondWith404 rt this, written = [] \<rparr>
             else
               let fired2 = (if timer oc = FiredDuringTransform then respondWith404 rt this else [])
               in if \<not> transformed oc
                  then \<lparr> after = this,
                         calls = first # fired1 @ fired2 @ respondWith404 rt this,
                         written = [] \<rparr>
                  else \<lparr> after = this,
                         calls = first # fired1 @ fired2 @ [SendFile cpath (Some (fileHeaders this))],
                         written = [cpath] \<rparr>)"

section \<open>Bootstrap validator\<close>

text \<open>What the startup checks read from the file system.\<close>

record filesystem =
  fs_exists :: "string \<Rightarrow> bool"
  fs_isDirectory :: "string \<Rightarrow> bool"
  fs_writable :: "string \<Rightarrow> bool"

datatype error = Error string

definition validateWritableDir :: "filesystem \<Rightarrow> string \<Rightarrow> error + unit" where
  "validateWritableDir fs dir =
     (if \<not> fs_exists fs dir then Inl (Error (dir @ '' does not exist''))
      else if \<not> fs_isDirectory fs dir then Inl (Error (dir @ '' is not a directory''))
      else if \<not> fs_writable fs dir then Inl (Error (dir @ '' is not writable''))
      else Inr ())"

definition setFileHeaders :: "runtime \<Rightarrow> ImgServer \<Rightarrow> ImgServer" where
  "setFileHeaders rt this =
     (let this = this \<lparr> fileHeaders :=
            AList.update ''Cache-Control''
              (''public, max-age='' @ numToString rt (cacheTime (config this))) (fileHeaders this) \<rparr>;
          this = this \<lparr> fileHeaders :=
            AList.update ''Expires'' (expiresAfter rt (cacheTime (config this))) (fileHeaders this) \<rparr>
      in this)"

definition validateDefaultImgExists :: "filesystem \<Rightarrow> ImgServer \<Rightarrow> string \<Rightarrow> error + unit" where
  "validateDefaultImgExists fs this file =
     (if return404 (config this) \<noteq> Some True \<and> \<not> fs_exists fs file
      then Inl (Error (file @ '' does not exist''))
      else Inr ())"

text \<open>
  \<open>init\<close> is an \<open>async\<close> method: an exception thrown in its body does not leave the call,
  it rejects the promise the call returns. The first component is how that promise
  settles (\<open>Inl\<close> the rejection), the second the object at that moment.
\<close>

definition init :: "runtime \<Rightarrow> filesystem \<Rightarrow> ImgServerConfig \<Rightarrow> ImgServer \<Rightarrow> (error + unit) \<times> ImgServer" where
  "init rt fs cfg this =
    (let this = this \<lparr> config := mergeConfig (defaultConfig rt) cfg \<rparr>
     in case validateWritableDir fs (cacheDir cfg) of
          Inl e \<Rightarrow> (Inl e, this)
        | Inr u \<Rightarrow>
           (case validateWritableDir fs (imgPath cfg) of
              Inl e \<Rightarrow> (Inl e, this)
            | Inr u \<Rightarrow>
               (let this = setFileHeaders rt this
                in (validateDefaultImgExists fs this (defaultImg cfg), this))))"

text \<open>
  The object after the field initialisers of the class. \<open>config\<close> has no initialiser;
  the record holds the constructor's argument there until \<open>init\<close> assigns the field, which
  is the first thing \<open>init\<close> does.
\<close>

definition fieldInitialisers :: "ImgServerConfig \<Rightarrow> ImgServer" where
  "fieldInitialisers cfg =
     \<lparr> config = cfg, timeoutFunction = None, cacheName = None, cachePath = None,
       fileHeaders = [(''Cache-Control'', []), (''Expires'', [])] \<rparr>"

text \<open>
  \<open>new ImgServer(config)\<close> as its caller sees it: \<open>Inl\<close> would be an exception leaving the
  constructor. The constructor calls \<open>this.init(config)\<close> and drops the promise.
\<close>

definition ImgServer_new :: "runtime \<Rightarrow> filesystem \<Rightarrow> ImgServerConfig \<Rightarrow> error + ImgServer" where
  "ImgServer_new rt fs cfg = Inr (snd (init rt fs cfg (fieldInitialisers cfg)))"

section \<open>A concrete platform\<close>

text \<open>
  One platform to run the definitions on concrete requests: the conversions of
  ECMAScript on strings of ASCII characters, POSIX paths, and a clock.
  The general theorems do not use it.
\<close>

subsection \<open>\<open>Number(v)\<close>\<close>

text \<open>
  StringToNumber: white space is trimmed, the empty string is 0, a literal that does not
  match the grammar is NaN. The result is the mathematical value of the literal; ECMAScript
  rounds it to the nearest binary64 value, which is the same number whenever the literal
  denotes one (every integer below \<open>2^53\<close>, for instance).
\<close>

definition is_ws :: "char \<Rightarrow> bool" where
  "is_ws c = (c \<in> set [CHR '' '', CHR 0x09, CHR 0x0A, CHR 0x0B, CHR 0x0C, CHR 0x0D])"

definition trim :: "string \<Rightarrow> string" where
  "trim s = rev (dropWhile is_ws (rev (dropWhile is_ws s)))"

definition digit_value :: "char \<Rightarrow> nat option" where
  "digit_value c =
     (let n = (of_char c :: nat)
      in if 48 \<le> n \<and> n \<le> 57 then Some (n - 48)
         else if 97 \<le> n \<and> n \<le> 102 then Some (n - 87)
         else if 65 \<le> n \<and> n \<le> 70 then Some (n - 55)
         else None)"

fun digits_from :: "nat \<Rightarrow> nat \<Rightarrow> string \<Rightarrow> nat option" where
  "digits_from b acc [] = Some acc"
| "digits_from b acc (c # cs) =
     (case digit_value c of
        None \<Rightarrow> None
      | Some d \<Rightarrow> if d < b then digits_from b (acc * b + d) cs else None)"

definition digits :: "nat \<Rightarrow> string \<Rightarrow> nat option" where
  "digits b s = (if s = [] then None else digits_from b 0 s)"

definition NonDecimalIntegerLiteral :: "string \<Rightarrow> nat option" where
  "NonDecimalIntegerLiteral s =
     (if take 2 s \<in> set [''0x'', ''0X''] then digits 16 (drop 2 s)
      else if take 2 s \<in> set [''0o'', ''0O''] then digits 8 (drop 2 s)
      else if take 2 s \<in> set [''0b'', ''0B''] then digits 2 (drop 2 s)
      else None)"

definition ExponentPart :: "string \<Rightarrow> int option" where
  "ExponentPart x =
     (if x = [] then Some 0
      else case tl x of
             [] \<Rightarrow> None
           | c # cs \<Rightarrow>
              if c = CHR ''-'' then map_option (\<lambda>n. - int n) (digits 10 cs)
              else if c = CHR ''+'' then map_option int (digits 10 cs)
              else map_option int (digits 10 (c # cs)))"

definition Mantissa :: "string \<Rightarrow> rat option" where
  "Mantissa m =
     (let ip = takeWhile (\<lambda>c. c \<noteq> CHR ''.'') m;
          rest = dropWhile (\<lambda>c. c \<noteq> CHR ''.'') m
      in if rest = [] then map_option of_nat (digits 10 ip)
         else let fp = tl rest
              in if ip = [] \<and> fp = [] then None
                 else case (if ip = [] then Some 0 else digits 10 ip,
                            if fp = [] then Some 0 else digits 10 fp) of
                        (Some i, Some f) \<Rightarrow> Some (of_nat i + of_nat f / 10 ^ length fp)
                      | _ \<Rightarrow> None)"

definition StrUnsignedDecimalLiteral :: "string \<Rightarrow> jsnum option" where
  "StrUnsignedDecimalLiteral u =
     (if u = ''Infinity'' then Some PInfinity
      else let isE = (\<lambda>c. c = CHR ''e'' \<or> c = CHR ''E'')
           in case (Mantissa (takeWhile (\<lambda>c. \<not> isE c) u),
                    ExponentPart (dropWhile (\<lambda>c. \<not> isE c) u)) of
                (Some m, Some e) \<Rightarrow>
                   Some (Finite (if 0 \<le> e then m * 10 ^ nat e else m / 10 ^ nat (- e)))
              | _ \<Rightarrow> None)"

fun negate :: "jsnum \<Rightarrow> jsnum" where
  "negate NaN = NaN"
| "negate PInfinity = NInfinity"
| "negate NInfinity = PInfinity"
| "negate (Finite r) = Finite (- r)"

definition StrDecimalLiteral :: "string \<Rightarrow> jsnum option" where
  "StrDecimalLiteral s =
     (case s of
        [] \<Rightarrow> None
      | c # cs \<Rightarrow>
          if c = CHR ''-'' then map_option negate (StrUnsignedDecimalLiteral cs)
          else if c = CHR ''+'' then StrUnsignedDecimalLiteral cs
          else StrUnsignedDecimalLiteral s)"

definition StringToNumber :: "string \<Rightarrow> jsnum" where
  "StringToNumber s =
     (let t = trim s
      in if t = [] then Finite 0
         else case NonDecimalIntegerLiteral t of
                Some n \<Rightarrow> Finite (of_nat n)
              | None \<Rightarrow> (case StrDecimalLiteral t of Some v \<Rightarrow> v | None \<Rightarrow> NaN))"

text \<open>ToString of a query value, the first step of \<open>Number\<close> on a value that is not a
  string: an array joins its elements with commas, an object is \<open>[object Object]\<close>.\<close>

fun intercalate :: "string \<Rightarrow> string list \<Rightarrow> string" where
  "intercalate sep [] = []"
| "intercalate sep [x] = x"
| "intercalate sep (x # y # ys) = x @ sep @ intercalate sep (y # ys)"

fun qval_ToString :: "qval \<Rightarrow> string" where
  "qval_ToString (QStr s) = s"
| "qval_ToString (QArr xs) = intercalate '','' (map qval_ToString xs)"
| "qval_ToString (QObj kvs) = ''[object Object]''"

definition js_Number :: "qval \<Rightarrow> jsnum" where
  "js_Number v = StringToNumber (qval_ToString v)"

subsection \<open>Number to text\<close>

text \<open>
  \<open>Number::toString\<close>: an integer below \<open>10^21\<close> is its decimal numeral. The digits of any
  other finite number are the shortest that read back as the same binary64 value; they are
  not defined here, and nothing is proved about them.
\<close>

fun dec :: "nat \<Rightarrow> string" where
  "dec n = (if n < 10 then [''0123456789'' ! n] else dec (n div 10) @ [''0123456789'' ! (n mod 10)])"

declare dec.simps [simp del]

definition Number_toString :: "jsnum \<Rightarrow> string" where
  "Number_toString n =
     (case n of
        NaN \<Rightarrow> ''NaN''
      | PInfinity \<Rightarrow> ''Infinity''
      | NInfinity \<Rightarrow> ''-Infinity''
      | Finite r \<Rightarrow>
          if of_int \<lfloor>r\<rfloor> = r \<and> \<bar>r\<bar> < 10 ^ 21
          then (if r < 0 then ''-'' @ dec (nat (- \<lfloor>r\<rfloor>)) else dec (nat \<lfloor>r\<rfloor>))
          else undefined)"

subsection \<open>\<open>new Date(Date.now() + t).toUTCString()\<close>\<close>

text \<open>The date of a time value in milliseconds since the epoch, by the days-to-civil
  conversion of the proleptic Gregorian calendar, in the format
  \<open>Tue, 21 Nov 2023 22:13:20 GMT\<close>.\<close>

definition pad :: "nat \<Rightarrow> string \<Rightarrow> string" where
  "pad w s = replicate (w - length s) CHR ''0'' @ s"

definition toUTCString :: "int \<Rightarrow> string" where
  "toUTCString tv =
     (let day = tv div 86400000;
          ms = tv mod 86400000;
          z = day + 719468;
          era = z div 146097;
          doe = z - era * 146097;
          yoe = (doe - doe div 1460 + doe div 36524 - doe div 146096) div 365;
          doy = doe - (365 * yoe + yoe div 4 - yoe div 100);
          mp = (5 * doy + 2) div 153;
          d = doy - (153 * mp + 2) div 5 + 1;
          m = (if mp < 10 then mp + 3 else mp - 9);
          y = yoe + era * 400 + (if m \<le> 2 then 1 else 0)
      in [''Sun'', ''Mon'', ''Tue'', ''Wed'', ''Thu'', ''Fri'', ''Sat''] ! nat ((day + 4) mod 7)
         @ '', '' @ pad 2 (dec (nat d)) @ '' ''
         @ [''Jan'', ''Feb'', ''Mar'', ''Apr'', ''May'', ''Jun'',
            ''Jul'', ''Aug'', ''Sep'', ''Oct'', ''Nov'', ''Dec''] ! nat (m - 1)
         @ '' '' @ (if y < 0 then ''-'' else []) @ pad 4 (dec (nat \<bar>y\<bar>))
         @ '' '' @ pad 2 (dec (nat (ms div 3600000)))
         @ '':'' @ pad 2 (dec (nat (ms div 60000 mod 60)))
         @ '':'' @ pad 2 (dec (nat (ms div 1000 mod 60)))
         @ '' GMT'')"

definition Date_toUTCString :: "jsnum \<Rightarrow> string" where
  "Date_toUTCString v =
     (case v of
        Finite r \<Rightarrow>
          if \<bar>r\<bar> \<le> 8640000000000000
          then toUTCString (if 0 \<le> r then \<lfloor>r\<rfloor> else \<lceil>r\<rceil>)
          else ''Invalid Date''
      | _ \<Rightarrow> ''Invalid Date'')"

fun js_add :: "jsnum \<Rightarrow> jsnum \<Rightarrow> jsnum" where
  "js_add (Finite a) (Finite b) = Finite (a + b)"
| "js_add NaN y = NaN"
| "js_add x NaN = NaN"
| "js_add PInfinity NInfinity = NaN"
| "js_add NInfinity PInfinity = NaN"
| "js_add PInfinity y = PInfinity"
| "js_add NInfinity y = NInfinity"
| "js_add x PInfinity = PInfinity"
| "js_add x NInfinity = NInfinity"

subsection \<open>\<open>slug\<close>\<close>

text \<open>
  The \<open>slug\<close> package is a dependency, not part of the repository. \<open>slugify\<close> does what
  the specification says of the slugification step: it lower-cases, replaces every run of
  characters that are neither letters nor digits by one separator \<open>-\<close>, and drops the
  separators at both ends.
\<close>

definition is_alnum :: "char \<Rightarrow> bool" where
  "is_alnum c =
     (let n = (of_char c :: nat)
      in (48 \<le> n \<and> n \<le> 57) \<or> (65 \<le> n \<and> n \<le> 90) \<or> (97 \<le> n \<and> n \<le> 122))"

definition toLowerCase :: "char \<Rightarrow> char" where
  "toLowerCase c =
     (case map_of (zip ''ABCDEFGHIJKLMNOPQRSTUVWXYZ'' ''abcdefghijklmnopqrstuvwxyz'') c of
        Some l \<Rightarrow> l
      | None \<Rightarrow> c)"

fun separate :: "string \<Rightarrow> string" where
  "separate [] = []"
| "separate (c # cs) =
     (if is_alnum c then toLowerCase c # separate cs
      else case separate cs of
             [] \<Rightarrow> []
           | d # ds \<Rightarrow> if d = CHR ''-'' then d # ds else CHR ''-'' # d # ds)"

definition slugify :: "string \<Rightarrow> string" where
  "slugify s = dropWhile (\<lambda>c. c = CHR ''-'') (separate s)"

subsection \<open>\<open>path.normalize\<close> and \<open>path.join\<close> on POSIX\<close>

fun splitOn :: "char \<Rightarrow> string \<Rightarrow> string list" where
  "splitOn c [] = [[]]"
| "splitOn c (x # xs) =
     (case splitOn c xs of
        [] \<Rightarrow> [[x]]
      | seg # segs \<Rightarrow> if x = c then [] # seg # segs else (x # seg) # segs)"

fun normalizeSegments :: "bool \<Rightarrow> string list \<Rightarrow> string list \<Rightarrow> string list" where
  "normalizeSegments allowAbove acc [] = rev acc"
| "normalizeSegments allowAbove acc (seg # segs) =
     (if seg = [] \<or> seg = ''.'' then normalizeSegments allowAbove acc segs
      else if seg = ''..'' then
        (case acc of
           [] \<Rightarrow> normalizeSegments allowAbove (if allowAbove then [''..''] else []) segs
         | a # as \<Rightarrow>
             if a = ''..'' then normalizeSegments allowAbove (''..'' # a # as) segs
             else normalizeSegments allowAbove as segs)
      else normalizeSegments allowAbove (seg # acc) segs)"

definition posix_normalize :: "string \<Rightarrow> string" where
  "posix_normalize p =
     (if p = [] then ''.''
      else let isAbsolute = (hd p = CHR ''/'');
               trailing = (last p = CHR ''/'');
               segs = normalizeSegments (\<not> isAbsolute) [] (splitOn CHR ''/'' p);
               body = intercalate ''/'' segs
           in if body = [] then (if isAbsolute then ''/'' else if trailing then ''./'' else ''.'')
              else (if isAbsolute then ''/'' else []) @ body @ (if trailing then ''/'' else []))"

definition posix_join :: "string \<Rightarrow> string \<Rightarrow> string" where
  "posix_join a b =
     (let parts = filter (\<lambda>s. s \<noteq> []) [a, b]
      in if parts = [] then ''.'' else posix_normalize (intercalate ''/'' parts))"

text \<open>The platform whose clock reads \<open>now\<close> milliseconds when the headers are computed.
  The library module lives in \<open>/app/lib\<close>.\<close>

definition node :: "int \<Rightarrow> runtime" where
  "node now =
     \<lparr> Number = js_Number,
       numToString = Number_toString,
       slug = slugify,
       path_join = posix_join,
       path_normalize = posix_normalize,
       expiresAfter = (\<lambda>t. Date_toUTCString (js_add (Finite (of_int now)) t)),
       dirname = ''/app/lib'' \<rparr>"

text \<open>The configuration of \<open>app.ts\<close>, with \<open>/app\<close> for its \<open>__dirname\<close>.\<close>

definition app_config :: ImgServerConfig where
  "app_config =
     \<lparr> imgPath = ''/app/uploads'',
       cacheDir = ''/app/cache'',
       cacheTime = Finite (1000 * 60 * 60 * 24 * 7),
       maxWidth = Finite 1920,
       maxHeight = Finite 1080,
       quality = Finite 80,
       allowedExts = [''webp'', ''jpg'', ''jpeg'', ''png'', ''gif''],
       defaultExt = ''webp'',
       return404 = Some False,
       timeout = Finite 5000,
       defaultImg = ''/app/uploads/placeholder-image.png'',
       resizeMode = ''cover'' \<rparr>"

text \<open>A file system on which the two directories of \<open>app.ts\<close> and its placeholder image
  exist, and one on which nothing exists.\<close>

definition good_fs :: filesystem where
  "good_fs =
     \<lparr> fs_exists = (\<lambda>p. p \<in> set [''/app/uploads'', ''/app/cache'',
                                   ''/app/uploads/placeholder-image.png'']),
       fs_isDirectory = (\<lambda>p. p \<in> set [''/app/uploads'', ''/app/cache'']),
       fs_writable = (\<lambda>p. p \<in> set [''/app/uploads'', ''/app/cache'']) \<rparr>"

definition empty_fs :: filesystem where
  "empty_fs =
     \<lparr> fs_exists = (\<lambda>p. False), fs_isDirectory = (\<lambda>p. False), fs_writable = (\<lambda>p. False) \<rparr>"

section \<open>Examples and predicates used in the statements\<close>

text \<open>The platform with the clock at 2023-11-14 22:13:20 UTC.\<close>

definition nodejs :: runtime where
  "nodejs = node 1700000000000"

text \<open>The server that \<open>app.ts\<close> constructs, once \<open>init\<close> has run on a good file system.\<close>

definition app_server :: ImgServer where
  "app_server = snd (init nodejs good_fs app_config (fieldInitialisers app_config))"

text \<open>A configuration that departs from the built-in one: narrower images, PNG only.\<close>

definition custom_config :: ImgServerConfig where
  "custom_config =
     app_config \<lparr> maxWidth := Finite 800, allowedExts := [''png''], defaultExt := ''png'' \<rparr>"

definition custom_server :: ImgServer where
  "custom_server = snd (init nodejs good_fs custom_config (fieldInitialisers custom_config))"

text \<open>A request for \<open>/photo.jpg\<close> without parameters, answered from the cache, and the
  same request when neither the cache file nor the source file exists.\<close>

definition photo_request :: Request where
  "photo_request = \<lparr> path = ''/photo.jpg'', query = Map.empty \<rparr>"

definition cache_hit :: outcome where
  "cache_hit = \<lparr> cacheSent = True, sourceExists = True, transformed = True,
                  timer = NotFired, timerId = 1 \<rparr>"

definition source_missing :: outcome where
  "source_missing = \<lparr> cacheSent = False, sourceExists = False, transformed = False,
                       timer = NotFired, timerId = 1 \<rparr>"

text \<open>The configuration agrees with the built-in one on what the option resolver reads.\<close>

definition follows_defaults :: "runtime \<Rightarrow> ImgServerConfig \<Rightarrow> bool" where
  "follows_defaults rt cfg =
     (maxWidth cfg = maxWidth (defaultConfig rt) \<and>
      maxHeight cfg = maxHeight (defaultConfig rt) \<and>
      quality cfg = quality (defaultConfig rt) \<and>
      allowedExts cfg = allowedExts (defaultConfig rt) \<and>
      defaultExt cfg = defaultExt (defaultConfig rt) \<and>
      resizeMode cfg = resizeMode (defaultConfig rt))"

text \<open>
  What ECMAScript guarantees of the text of a number, stated for the numeric fields of two
  options objects: the text is made of digits, signs, a point and \<open>e\<close>, or is
  \<open>Infinity\<close> or \<open>NaN\<close>, and two numbers with the same text are the same number.
\<close>

definition numeric_text :: "string \<Rightarrow> bool" where
  "numeric_text t = list_all (\<lambda>c. c \<in> set ''0123456789+-.eInfityNa'') t"

definition prints_apart :: "runtime \<Rightarrow> jsobj \<Rightarrow> jsobj \<Rightarrow> bool" where
  "prints_apart rt o1 o2 =
     list_all
       (\<lambda>k. case (getProp o1 k, getProp o2 k) of
               (Some (Num a), Some (Num b)) \<Rightarrow>
                  (numToString rt a = numToString rt b \<longrightarrow> a = b)
                  \<and> numeric_text (numToString rt a) \<and> numeric_text (numToString rt b)
             | _ \<Rightarrow> True)
       [''width'', ''height'', ''quality'']"

section \<open>Evaluating the examples\<close>

lemmas js_Number_defs = js_Number_def StringToNumber_def trim_def is_ws_def
  NonDecimalIntegerLiteral_def StrDecimalLiteral_def StrUnsignedDecimalLiteral_def
  Mantissa_def ExponentPart_def digits_def digit_value_def

lemmas slugify_defs = slugify_def is_alnum_def toLowerCase_def

lemma nodejs_numbers:
  "Number nodejs (QStr ''0'') = Finite 0"
  "Number nodejs (QStr ''5'') = Finite 5"
  "Number nodejs (QStr ''-5'') = Finite (- 5)"
  "Number nodejs (QStr ''0.5'') = Finite (1 / 2)"
  "Number nodejs (QStr ''300'') = Finite 300"
  "Number nodejs (QStr ''400'') = Finite 400"
  "Number nodejs (QStr ''1000'') = Finite 1000"
  "Number nodejs (QStr ''5000'') = Finite 5000"
  by (simp_all add: nodejs_def node_def js_Number_defs)

lemma nodejs_texts:
  "numToString nodejs (Finite 5) = ''5''"
  "numToString nodejs (Finite (- 5)) = ''-5''"
  "numToString nodejs (Finite 80) = ''80''"
  "numToString nodejs (Finite 300) = ''300''"
  "numToString nodejs (Finite 400) = ''400''"
  "numToString nodejs (Finite 1080) = ''1080''"
  "numToString nodejs (Finite 1920) = ''1920''"
  "numToString nodejs (Finite 604800000) = ''604800000''"
  by (simp_all add: nodejs_def node_def Number_toString_def dec.simps)


lemma app_server_eq:
  "app_server =
     \<lparr> config = app_config, timeoutFunction = None, cacheName = None, cachePath = None,
       fileHeaders = [(''Cache-Control'', ''public, max-age=604800000''),
                      (''Expires'', ''Tue, 21 Nov 2023 22:13:20 GMT'')] \<rparr>"
proof -
  have d: "toUTCString 1700604800000 = ''Tue, 21 Nov 2023 22:13:20 GMT''"
    by code_simp
  have e: "expiresAfter nodejs (Finite 604800000) = ''Tue, 21 Nov 2023 22:13:20 GMT''"
    by (simp add: nodejs_def node_def Date_toUTCString_def d)
  show ?thesis
    by (simp add: app_server_def init_def validateWritableDir_def good_fs_def app_config_def
          setFileHeaders_def validateDefaultImgExists_def mergeConfig_def fieldInitialisers_def
          nodejs_texts e)
qed

lemma init_config: "config (snd (init rt fs cfg this)) = mergeConfig (defaultConfig rt) cfg"
  by (simp add: init_def setFileHeaders_def Let_def split: sum.split)

lemma custom_server_config: "config custom_server = custom_config"
  by (simp add: custom_server_def init_config mergeConfig_def custom_config_def app_config_def)

section \<open>Option resolver\<close>

text \<open>The options object that \<open>parseOptions\<close> returns, property by property.\<close>

lemma parseOptions_eq:
  "parseOptions rt this q =
    [ (''width'', Num (case q ''width'' of
                   None \<Rightarrow> maxWidth (defaultConfig rt)
                 | Some v \<Rightarrow>
                     if truthy v \<and> truthy_num (Number rt v)
                        \<and> js_lt (Number rt v) (maxWidth (defaultConfig rt))
                     then Number rt v else maxWidth (defaultConfig rt))),
      (''height'', Num (case q ''height'' of
                   None \<Rightarrow> maxHeight (defaultConfig rt)
                 | Some v \<Rightarrow>
                     if truthy v \<and> truthy_num (Number rt v)
                        \<and> js_lt (Number rt v) (maxHeight (defaultConfig rt))
                     then Number rt v else maxHeight (defaultConfig rt))),
      (''quality'', Num (case q ''quality'' of
                   None \<Rightarrow> quality (defaultConfig rt)
                 | Some v \<Rightarrow>
                     if truthy v \<and> truthy_num (Number rt v)
                        \<and> js_lt (Number rt v) (Finite 100)
                     then Number rt v else quality (defaultConfig rt))),
      (''ext'', Str (case q ''ext'' of
                   None \<Rightarrow> defaultExt (defaultConfig rt)
                 | Some v \<Rightarrow>
                     if truthy v \<and> Array_includes (allowedExts (defaultConfig rt)) v
                     then qval_string v else defaultExt (defaultConfig rt))),
      (''resizeMode'', Str (case q ''resizeMode'' of
                   None \<Rightarrow> resizeMode (defaultConfig rt)
                 | Some v \<Rightarrow>
                     if truthy v \<and> Array_includes resizeModesArray v
                     then qval_string v else resizeMode (defaultConfig rt))) ]"
  by (simp add: parseOptions_def defaultRequestConfig_def setProp_def)

lemma parseOptions_keys:
  "Object_keys (parseOptions rt this q) = [''width'', ''height'', ''quality'', ''ext'', ''resizeMode'']"
  by (simp add: parseOptions_eq Object_keys_def)

lemma truthy_iff: "truthy v \<longleftrightarrow> v \<noteq> QStr []"
  by (cases v) auto

lemma includes_string: "Array_includes xs v \<longleftrightarrow> (\<exists>s. v = QStr s \<and> s \<in> set xs)"
  by (cases v) auto

lemma parseOptions_resolved:
  "\<exists>w h ql e r.
     parseOptions rt this q =
       [(''width'', Num w), (''height'', Num h), (''quality'', Num ql),
        (''ext'', Str e), (''resizeMode'', Str r)]
     \<and> e \<in> set [''webp'', ''jpg'', ''jpeg'', ''png'', ''gif'']
     \<and> r \<in> set [''cover'', ''contain'', ''fill'']"
  unfolding parseOptions_eq
  by (intro exI conjI refl)
     (auto simp: defaultConfig_def resizeModesArray_def includes_string split: option.splits if_splits)

lemma width_300:
  "parseOptions nodejs this [''width'' \<mapsto> QStr ''300''] =
     [(''width'', Num (Finite 300)), (''height'', Num (Finite 1080)), (''quality'', Num (Finite 80)),
      (''ext'', Str ''webp''), (''resizeMode'', Str ''cover'')]"
  by (simp add: parseOptions_eq nodejs_numbers defaultConfig_def truthy_num_def)

lemma width_400:
  "parseOptions nodejs this [''width'' \<mapsto> QStr ''400''] =
     [(''width'', Num (Finite 400)), (''height'', Num (Finite 1080)), (''quality'', Num (Finite 80)),
      (''ext'', Str ''webp''), (''resizeMode'', Str ''cover'')]"
  by (simp add: parseOptions_eq nodejs_numbers defaultConfig_def truthy_num_def)

lemma width_5:
  "parseOptions nodejs this [''width'' \<mapsto> QStr ''5''] =
     [(''width'', Num (Finite 5)), (''height'', Num (Finite 1080)), (''quality'', Num (Finite 80)),
      (''ext'', Str ''webp''), (''resizeMode'', Str ''cover'')]"
  by (simp add: parseOptions_eq nodejs_numbers defaultConfig_def truthy_num_def)

lemma width_minus_5:
  "parseOptions nodejs this [''width'' \<mapsto> QStr ''-5''] =
     [(''width'', Num (Finite (- 5))), (''height'', Num (Finite 1080)), (''quality'', Num (Finite 80)),
      (''ext'', Str ''webp''), (''resizeMode'', Str ''cover'')]"
  by (simp add: parseOptions_eq nodejs_numbers defaultConfig_def truthy_num_def)

text \<open>
  Claim C1, as amended. Under a configuration whose \<open>maxWidth\<close> and \<open>maxHeight\<close> are the
  built-in ones (as in \<open>app.ts\<close>), the resolved width is the requested width exactly when
  the parameter is present, is not the empty string, is numeric, is not zero and is
  strictly less than \<open>maxWidth\<close>; otherwise it is \<open>maxWidth\<close>. The same holds for the
  height against \<open>maxHeight\<close>.
\<close>

theorem resolved_width_height:
  assumes "maxWidth (config this) = maxWidth (defaultConfig rt)"
    and "maxHeight (config this) = maxHeight (defaultConfig rt)"
  shows "getProp (parseOptions rt this q) ''width'' =
           Some (Num (case q ''width'' of
                        None \<Rightarrow> maxWidth (config this)
                      | Some v \<Rightarrow>
                          if v \<noteq> QStr [] \<and> Number rt v \<noteq> NaN \<and> Number rt v \<noteq> Finite 0
                             \<and> js_lt (Number rt v) (maxWidth (config this))
                          then Number rt v else maxWidth (config this)))
       \<and> getProp (parseOptions rt this q) ''height'' =
           Some (Num (case q ''height'' of
                        None \<Rightarrow> maxHeight (config this)
                      | Some v \<Rightarrow>
                          if v \<noteq> QStr [] \<and> Number rt v \<noteq> NaN \<and> Number rt v \<noteq> Finite 0
                             \<and> js_lt (Number rt v) (maxHeight (config this))
                          then Number rt v else maxHeight (config this)))"
  using assms
  by (auto simp add: parseOptions_eq getProp_def truthy_num_def truthy_iff split: option.split)

text \<open>Scenario D: \<open>width=5000\<close> under the configuration of \<open>app.ts\<close> resolves to 1920.\<close>

theorem resolved_width_height_witness:
  "maxWidth (config app_server) = maxWidth (defaultConfig nodejs)
   \<and> maxHeight (config app_server) = maxHeight (defaultConfig nodejs)
   \<and> getProp (parseOptions nodejs app_server [''width'' \<mapsto> QStr ''5000'']) ''width''
       = Some (Num (Finite 1920))"
proof -
  have w: "maxWidth (config app_server) = maxWidth (defaultConfig nodejs)"
    by (simp add: app_server_eq app_config_def defaultConfig_def)
  have h: "maxHeight (config app_server) = maxHeight (defaultConfig nodejs)"
    by (simp add: app_server_eq app_config_def defaultConfig_def)
  from resolved_width_height [OF w h, of "[''width'' \<mapsto> QStr ''5000'']"] w h show ?thesis
    by (simp add: nodejs_numbers app_server_eq app_config_def)
qed

text \<open>
  The claim as it was stated fails twice. The width \<open>0\<close> is present, numeric and below
  1920, and resolves to 1920. Under a configured \<open>maxWidth\<close> of 800 the width \<open>1000\<close>
  resolves to 1000.
\<close>

theorem resolved_width_height_counterexample:
  "[''width'' \<mapsto> QStr ''0''] ''width'' = Some (QStr ''0'')
   \<and> Number nodejs (QStr ''0'') = Finite 0
   \<and> js_lt (Finite 0) (maxWidth (config app_server))
   \<and> getProp (parseOptions nodejs app_server [''width'' \<mapsto> QStr ''0'']) ''width''
        = Some (Num (Finite 1920))
   \<and> maxWidth (config custom_server) = Finite 800
   \<and> Number nodejs (QStr ''1000'') = Finite 1000
   \<and> getProp (parseOptions nodejs custom_server [''width'' \<mapsto> QStr ''1000'']) ''width''
        = Some (Num (Finite 1000))"
  by (simp add: parseOptions_eq getProp_def nodejs_numbers defaultConfig_def truthy_num_def
        app_server_eq app_config_def custom_server_config custom_config_def)

text \<open>
  Claim C3, as amended. Under a configuration that agrees with the built-in one on the
  bounds, defaults and formats, every query resolves to an options object with exactly
  the five properties width, height, quality, ext and resizeMode, in this order, where:
  width and height are numbers other than NaN and zero (negative and fractional values
  included) that are at most \<open>maxWidth\<close> and \<open>maxHeight\<close>; quality is a number other than
  NaN and zero, strictly less than 100; the format is one of the allowed formats; the fit
  mode is one of cover, contain and fill.
\<close>

theorem resolved_options_bounds:
  assumes "follows_defaults rt (config this)"
  shows "\<exists>w h ql e r.
           parseOptions rt this q =
             [(''width'', Num w), (''height'', Num h), (''quality'', Num ql),
              (''ext'', Str e), (''resizeMode'', Str r)]
           \<and> w \<noteq> NaN \<and> w \<noteq> Finite 0
           \<and> (js_lt w (maxWidth (config this)) \<or> w = maxWidth (config this))
           \<and> h \<noteq> NaN \<and> h \<noteq> Finite 0
           \<and> (js_lt h (maxHeight (config this)) \<or> h = maxHeight (config this))
           \<and> ql \<noteq> NaN \<and> ql \<noteq> Finite 0 \<and> js_lt ql (Finite 100)
           \<and> e \<in> set (allowedExts (config this))
           \<and> r \<in> set resizeModesArray"
proof -
  from assms have c:
    "maxWidth (config this) = Finite 1920" "maxHeight (config this) = Finite 1080"
    "allowedExts (config this) = [''webp'', ''jpg'', ''jpeg'', ''png'', ''gif'']"
    by (simp_all add: follows_defaults_def defaultConfig_def)
  have d:
    "maxWidth (defaultConfig rt) = Finite 1920" "maxHeight (defaultConfig rt) = Finite 1080"
    "quality (defaultConfig rt) = Finite 80" "defaultExt (defaultConfig rt) = ''webp''"
    "allowedExts (defaultConfig rt) = [''webp'', ''jpg'', ''jpeg'', ''png'', ''gif'']"
    "resizeMode (defaultConfig rt) = ''cover''"
    by (simp_all add: defaultConfig_def)
  show ?thesis
    unfolding parseOptions_eq c d
    by (intro exI conjI refl)
       (auto simp: truthy_num_def resizeModesArray_def includes_string split: option.splits if_splits)
qed

theorem resolved_options_bounds_witness:
  "follows_defaults nodejs (config app_server)
   \<and> parseOptions nodejs app_server
        [''width'' \<mapsto> QStr ''-5'', ''quality'' \<mapsto> QStr ''0.5'', ''ext'' \<mapsto> QStr ''bmp''] =
      [(''width'', Num (Finite (- 5))), (''height'', Num (Finite 1080)),
       (''quality'', Num (Finite (1 / 2))), (''ext'', Str ''webp''), (''resizeMode'', Str ''cover'')]
   \<and> (\<exists>w h ql e r.
           parseOptions nodejs app_server
             [''width'' \<mapsto> QStr ''-5'', ''quality'' \<mapsto> QStr ''0.5'', ''ext'' \<mapsto> QStr ''bmp''] =
             [(''width'', Num w), (''height'', Num h), (''quality'', Num ql),
              (''ext'', Str e), (''resizeMode'', Str r)]
           \<and> w \<noteq> NaN \<and> w \<noteq> Finite 0
           \<and> (js_lt w (maxWidth (config app_server)) \<or> w = maxWidth (config app_server))
           \<and> h \<noteq> NaN \<and> h \<noteq> Finite 0
           \<and> (js_lt h (maxHeight (config app_server)) \<or> h = maxHeight (config app_server))
           \<and> ql \<noteq> NaN \<and> ql \<noteq> Finite 0 \<and> js_lt ql (Finite 100)
           \<and> e \<in> set (allowedExts (config app_server))
           \<and> r \<in> set resizeModesArray)"
proof -
  have f: "follows_defaults nodejs (config app_server)"
    by (simp add: follows_defaults_def app_server_eq app_config_def defaultConfig_def)
  have p: "parseOptions nodejs app_server
        [''width'' \<mapsto> QStr ''-5'', ''quality'' \<mapsto> QStr ''0.5'', ''ext'' \<mapsto> QStr ''bmp''] =
      [(''width'', Num (Finite (- 5))), (''height'', Num (Finite 1080)),
       (''quality'', Num (Finite (1 / 2))), (''ext'', Str ''webp''), (''resizeMode'', Str ''cover'')]"
    by (simp add: parseOptions_eq nodejs_numbers defaultConfig_def truthy_num_def)
  from f p resolved_options_bounds [OF f] show ?thesis
    by blast
qed

text \<open>The claim as it was stated fails: \<open>width=-5\<close> resolves to -5, which is below 1.\<close>

theorem resolved_options_bounds_counterexample:
  "getProp (parseOptions nodejs app_server [''width'' \<mapsto> QStr ''-5'']) ''width''
     = Some (Num (Finite (- 5)))
   \<and> \<not> (1 \<le> (- 5 :: rat))"
  by (simp add: width_minus_5 getProp_def)

text \<open>
  Claim C4. The resolved format should be the requested one exactly when it is in the
  allowed-format set given to the constructor, and the default format given to the
  constructor otherwise. The code resolves against the built-in set and default: with
  PNG as the only allowed and the default format, a request without \<open>ext\<close> resolves to
  webp, and \<open>ext=jpg\<close> resolves to jpg.
\<close>

theorem configured_formats_ignored:
  "allowedExts (config custom_server) = [''png'']
   \<and> defaultExt (config custom_server) = ''png''
   \<and> getProp (parseOptions nodejs custom_server Map.empty) ''ext'' = Some (Str ''webp'')
   \<and> getProp (parseOptions nodejs custom_server [''ext'' \<mapsto> QStr ''jpg'']) ''ext''
        = Some (Str ''jpg'')"
  by (simp add: parseOptions_eq getProp_def defaultConfig_def custom_server_config custom_config_def
        app_config_def)

section \<open>Request handling: what a request changes\<close>

lemma middleware_after:
  "config (after (middleware rt this req oc)) = config this"
  "fileHeaders (after (middleware rt this req oc)) = fileHeaders this"
  "cacheName (after (middleware rt this req oc)) =
     Some (loadCacheName rt (path req) (parseOptions rt this (query req)))"
  "cachePath (after (middleware rt this req oc)) =
     Some (path_join rt (cacheDir (config this))
             (loadCacheName rt (path req) (parseOptions rt this (query req))))"
  by (simp_all add: middleware_def Let_def)


section \<open>Cache key deriver\<close>

lemma lastIndexOf_absent: "c \<notin> set s \<Longrightarrow> lastIndexOf s c = - 1"
  by (induction s) (auto simp: Let_def)

lemma loadCacheName_unslugged:
  "loadCacheName rt p options =
     slug rt (unsluggedName rt p options) @ ''.'' @ valToString rt (getProp options ''ext'')"
  by (simp add: loadCacheName_def unsluggedName_def Let_def)

lemma unsluggedName_resolved:
  assumes "options = [(''width'', Num w), (''height'', Num h), (''quality'', Num ql),
              (''ext'', Str e), (''resizeMode'', Str r)]"
  shows "unsluggedName rt p options =
           ''-width-'' @ numToString rt w @ ''-height-'' @ numToString rt h @ ''-quality-''
           @ numToString rt ql @ ''-ext-'' @ e @ ''-resizeMode-'' @ r @ ''-''
           @ substring p 0 (lastIndexOf p CHR ''.'')"
  by (simp add: assms unsluggedName_def Object_keys_def getProp_def)

text \<open>
  Claim C5. The cache key is a function of the request path and of the resolved options
  alone: whenever two requests for the same path resolve to the same value in every
  options field, the key that the handler derives and stores is the same text, whatever
  the server object is (its configuration, what earlier requests left in it) and
  whatever happens to the request afterwards; it is \<open>loadCacheName\<close> of the path and the
  resolved options.
\<close>

theorem cache_key_deterministic:
  assumes "\<forall>k. getProp (parseOptions rt s1 q1) k = getProp (parseOptions rt s2 q2) k"
  shows "cacheName (after (middleware rt s1 \<lparr> path = p, query = q1 \<rparr> oc1)) =
           Some (loadCacheName rt p (parseOptions rt s1 q1))
       \<and> cacheName (after (middleware rt s2 \<lparr> path = p, query = q2 \<rparr> oc2)) =
           cacheName (after (middleware rt s1 \<lparr> path = p, query = q1 \<rparr> oc1))"
proof -
  have "getProp (parseOptions rt s1 q1) k = getProp (parseOptions rt s2 q2) k" for k
    using assms by simp
  from this [of "''width''"] this [of "''height''"] this [of "''quality''"] this [of "''ext''"]
    this [of "''resizeMode''"]
  have "parseOptions rt s1 q1 = parseOptions rt s2 q2"
    by (simp add: parseOptions_eq getProp_def)
  then show ?thesis
    by (simp add: middleware_after)
qed

theorem cache_key_deterministic_witness:
  "(\<forall>k. getProp (parseOptions nodejs app_server [''width'' \<mapsto> QStr ''5000'']) k =
        getProp (parseOptions nodejs custom_server Map.empty) k)
   \<and> cacheName (after (middleware nodejs custom_server
                        \<lparr> path = ''/photo.jpg'', query = Map.empty \<rparr> source_missing)) =
       cacheName (after (middleware nodejs app_server
                        \<lparr> path = ''/photo.jpg'', query = [''width'' \<mapsto> QStr ''5000''] \<rparr> cache_hit))"
proof -
  have e: "parseOptions nodejs app_server [''width'' \<mapsto> QStr ''5000'']
           = parseOptions nodejs custom_server Map.empty"
    by (simp add: parseOptions_eq nodejs_numbers defaultConfig_def)
  then have h: "\<forall>k. getProp (parseOptions nodejs app_server [''width'' \<mapsto> QStr ''5000'']) k =
        getProp (parseOptions nodejs custom_server Map.empty) k"
    by simp
  from cache_key_deterministic [OF h, where p = "''/photo.jpg''" and ?oc1.0 = cache_hit
      and ?oc2.0 = source_missing] h
  show ?thesis
    by (simp add: middleware_after e)
qed

text \<open>Two texts that continue with the same separator are equal up to the separator, when a
  character of the separator occurs in neither.\<close>

lemma sep_split:
  assumes "c \<in> set sep" and "c \<notin> set A" and "c \<notin> set A'"
    and "A @ sep @ R = A' @ sep @ R'"
  shows "A = A' \<and> R = R'"
proof -
  have "takeWhile (\<lambda>x. x \<noteq> c) (B @ sep @ S) = B @ takeWhile (\<lambda>x. x \<noteq> c) sep"
    if "c \<notin> set B" for B S
  proof -
    from that have "takeWhile (\<lambda>x. x \<noteq> c) (B @ sep @ S) = B @ takeWhile (\<lambda>x. x \<noteq> c) (sep @ S)"
      by (intro takeWhile_append2) auto
    also from assms(1) have "takeWhile (\<lambda>x. x \<noteq> c) (sep @ S) = takeWhile (\<lambda>x. x \<noteq> c) sep"
      by (intro takeWhile_append1 [of c]) auto
    finally show ?thesis .
  qed
  from this [OF assms(2), of R] this [OF assms(3), of R'] assms(4)
  have "A = A'"
    by simp
  with assms(4) show ?thesis
    by simp
qed

lemma numeric_text_free:
  assumes "numeric_text t"
  shows "CHR ''h'' \<notin> set t" and "CHR ''q'' \<notin> set t" and "CHR ''x'' \<notin> set t"
proof -
  have m: "c \<in> set ''0123456789+-.eInfityNa''" if "c \<in> set t" for c
    using assms that unfolding numeric_text_def list_all_iff by blast
  have "CHR ''h'' \<notin> set ''0123456789+-.eInfityNa''"
    and "CHR ''q'' \<notin> set ''0123456789+-.eInfityNa''"
    and "CHR ''x'' \<notin> set ''0123456789+-.eInfityNa''"
    by simp_all
  with m show "CHR ''h'' \<notin> set t" and "CHR ''q'' \<notin> set t" and "CHR ''x'' \<notin> set t"
    by blast+
qed

text \<open>The text handed to \<open>slug\<close> determines the resolved options.\<close>

lemma unsluggedName_inj:
  assumes o1: "o1 = [(''width'', Num w1), (''height'', Num h1), (''quality'', Num ql1),
              (''ext'', Str e1), (''resizeMode'', Str r1)]"
    and o2: "o2 = [(''width'', Num w2), (''height'', Num h2), (''quality'', Num ql2),
              (''ext'', Str e2), (''resizeMode'', Str r2)]"
    and e: "CHR ''-'' \<notin> set e1" "CHR ''-'' \<notin> set e2"
    and r: "CHR ''-'' \<notin> set r1" "CHR ''-'' \<notin> set r2"
    and pr: "prints_apart rt o1 o2"
    and eq: "unsluggedName rt p o1 = unsluggedName rt p o2"
  shows "o1 = o2"
proof -
  let ?S = "numToString rt"
  let ?f = "substring p 0 (lastIndexOf p CHR ''.'')"
  from pr have w: "?S w1 = ?S w2 \<longrightarrow> w1 = w2" "numeric_text (?S w1)" "numeric_text (?S w2)"
    and h: "?S h1 = ?S h2 \<longrightarrow> h1 = h2" "numeric_text (?S h1)" "numeric_text (?S h2)"
    and q: "?S ql1 = ?S ql2 \<longrightarrow> ql1 = ql2" "numeric_text (?S ql1)" "numeric_text (?S ql2)"
    by (simp_all add: prints_apart_def o1 o2 getProp_def)
  from eq have 1:
    "?S w1 @ ''-height-'' @ (?S h1 @ ''-quality-'' @ (?S ql1 @ ''-ext-''
        @ (e1 @ ''-resizeMode-'' @ (r1 @ ''-'' @ ?f))))
      = ?S w2 @ ''-height-'' @ (?S h2 @ ''-quality-'' @ (?S ql2 @ ''-ext-''
        @ (e2 @ ''-resizeMode-'' @ (r2 @ ''-'' @ ?f))))"
    by (simp add: unsluggedName_resolved [OF o1] unsluggedName_resolved [OF o2])
  have 2: "?S w1 = ?S w2 \<and>
      ?S h1 @ ''-quality-'' @ (?S ql1 @ ''-ext-'' @ (e1 @ ''-resizeMode-'' @ (r1 @ ''-'' @ ?f)))
      = ?S h2 @ ''-quality-'' @ (?S ql2 @ ''-ext-'' @ (e2 @ ''-resizeMode-'' @ (r2 @ ''-'' @ ?f)))"
    by (rule sep_split [OF _ numeric_text_free(1) [OF w(2)] numeric_text_free(1) [OF w(3)] 1]) simp
  have 3: "?S h1 = ?S h2 \<and>
      ?S ql1 @ ''-ext-'' @ (e1 @ ''-resizeMode-'' @ (r1 @ ''-'' @ ?f))
      = ?S ql2 @ ''-ext-'' @ (e2 @ ''-resizeMode-'' @ (r2 @ ''-'' @ ?f))"
    by (rule sep_split [OF _ numeric_text_free(2) [OF h(2)] numeric_text_free(2) [OF h(3)]
          conjunct2 [OF 2]]) simp
  have 4: "?S ql1 = ?S ql2 \<and>
      e1 @ ''-resizeMode-'' @ (r1 @ ''-'' @ ?f) = e2 @ ''-resizeMode-'' @ (r2 @ ''-'' @ ?f)"
    by (rule sep_split [OF _ numeric_text_free(3) [OF q(2)] numeric_text_free(3) [OF q(3)]
          conjunct2 [OF 3]]) simp
  have 5: "e1 = e2 \<and> r1 @ ''-'' @ ?f = r2 @ ''-'' @ ?f"
    by (rule sep_split [OF _ e conjunct2 [OF 4]]) simp
  have 6: "r1 = r2 \<and> ?f = ?f"
    by (rule sep_split [OF _ r conjunct2 [OF 5]]) simp
  from 2 3 4 5 6 w(1) h(1) q(1) show ?thesis
    by (simp add: o1 o2)
qed

text \<open>
  Claim C6. For a fixed path, two resolved options objects that differ in a field give
  different cache keys, barring a slug collision: provided \<open>slug\<close> does not map the two
  texts it is given to one result, and the platform prints the numeric fields as
  ECMAScript does (numeric text, distinct numbers as distinct texts).
\<close>

theorem cache_key_injective:
  assumes differ: "parseOptions rt s1 q1 \<noteq> parseOptions rt s2 q2"
    and pr: "prints_apart rt (parseOptions rt s1 q1) (parseOptions rt s2 q2)"
    and no_collision:
      "slug rt (unsluggedName rt p (parseOptions rt s1 q1))
         = slug rt (unsluggedName rt p (parseOptions rt s2 q2))
       \<longrightarrow> unsluggedName rt p (parseOptions rt s1 q1)
         = unsluggedName rt p (parseOptions rt s2 q2)"
  shows "loadCacheName rt p (parseOptions rt s1 q1) \<noteq> loadCacheName rt p (parseOptions rt s2 q2)"
proof
  assume eq: "loadCacheName rt p (parseOptions rt s1 q1) = loadCacheName rt p (parseOptions rt s2 q2)"
  obtain w1 h1 ql1 e1 r1 where o1:
    "parseOptions rt s1 q1 = [(''width'', Num w1), (''height'', Num h1), (''quality'', Num ql1),
        (''ext'', Str e1), (''resizeMode'', Str r1)]"
    and e1: "e1 \<in> set [''webp'', ''jpg'', ''jpeg'', ''png'', ''gif'']"
    and r1: "r1 \<in> set [''cover'', ''contain'', ''fill'']"
    using parseOptions_resolved [of rt s1 q1] by blast
  obtain w2 h2 ql2 e2 r2 where o2:
    "parseOptions rt s2 q2 = [(''width'', Num w2), (''height'', Num h2), (''quality'', Num ql2),
        (''ext'', Str e2), (''resizeMode'', Str r2)]"
    and e2: "e2 \<in> set [''webp'', ''jpg'', ''jpeg'', ''png'', ''gif'']"
    and r2: "r2 \<in> set [''cover'', ''contain'', ''fill'']"
    using parseOptions_resolved [of rt s2 q2] by blast
  from e1 e2 have dot: "CHR ''.'' \<notin> set (rev e1)" "CHR ''.'' \<notin> set (rev e2)"
    by auto
  from e1 e2 have dash_e: "CHR ''-'' \<notin> set e1" "CHR ''-'' \<notin> set e2"
    by auto
  from r1 r2 have dash_r: "CHR ''-'' \<notin> set r1" "CHR ''-'' \<notin> set r2"
    by auto
  from eq have "slug rt (unsluggedName rt p (parseOptions rt s1 q1)) @ ''.'' @ e1
      = slug rt (unsluggedName rt p (parseOptions rt s2 q2)) @ ''.'' @ e2"
    by (simp add: loadCacheName_unslugged o1 o2 getProp_def)
  then have "rev (slug rt (unsluggedName rt p (parseOptions rt s1 q1)) @ ''.'' @ e1)
      = rev (slug rt (unsluggedName rt p (parseOptions rt s2 q2)) @ ''.'' @ e2)"
    by (rule arg_cong)
  then have "rev e1 @ ''.'' @ rev (slug rt (unsluggedName rt p (parseOptions rt s1 q1)))
      = rev e2 @ ''.'' @ rev (slug rt (unsluggedName rt p (parseOptions rt s2 q2)))"
    by simp
  from sep_split [OF _ dot this]
  have "slug rt (unsluggedName rt p (parseOptions rt s1 q1))
      = slug rt (unsluggedName rt p (parseOptions rt s2 q2))"
    by simp
  with no_collision
  have "unsluggedName rt p (parseOptions rt s1 q1) = unsluggedName rt p (parseOptions rt s2 q2)"
    by simp
  from unsluggedName_inj [OF o1 o2 dash_e dash_r pr this] differ show False
    by simp
qed

lemma slug_width_300:
  "slug nodejs (unsluggedName nodejs ''/photo.jpg''
       [(''width'', Num (Finite 300)), (''height'', Num (Finite 1080)), (''quality'', Num (Finite 80)),
        (''ext'', Str ''webp''), (''resizeMode'', Str ''cover'')])
   = ''width-300-height-1080-quality-80-ext-webp-resizemode-cover-photo''"
proof -
  have "unsluggedName nodejs ''/photo.jpg''
       [(''width'', Num (Finite 300)), (''height'', Num (Finite 1080)), (''quality'', Num (Finite 80)),
        (''ext'', Str ''webp''), (''resizeMode'', Str ''cover'')]
    = ''-width-300-height-1080-quality-80-ext-webp-resizeMode-cover-/photo''"
    by (simp add: unsluggedName_def Object_keys_def getProp_def nodejs_texts substring_def)
  then show ?thesis
    by (simp add: nodejs_def node_def slugify_defs)
qed

lemma slug_width_400:
  "slug nodejs (unsluggedName nodejs ''/photo.jpg''
       [(''width'', Num (Finite 400)), (''height'', Num (Finite 1080)), (''quality'', Num (Finite 80)),
        (''ext'', Str ''webp''), (''resizeMode'', Str ''cover'')])
   = ''width-400-height-1080-quality-80-ext-webp-resizemode-cover-photo''"
proof -
  have "unsluggedName nodejs ''/photo.jpg''
       [(''width'', Num (Finite 400)), (''height'', Num (Finite 1080)), (''quality'', Num (Finite 80)),
        (''ext'', Str ''webp''), (''resizeMode'', Str ''cover'')]
    = ''-width-400-height-1080-quality-80-ext-webp-resizeMode-cover-/photo''"
    by (simp add: unsluggedName_def Object_keys_def getProp_def nodejs_texts substring_def)
  then show ?thesis
    by (simp add: nodejs_def node_def slugify_defs)
qed

theorem cache_key_injective_witness:
  "parseOptions nodejs app_server [''width'' \<mapsto> QStr ''300'']
     \<noteq> parseOptions nodejs app_server [''width'' \<mapsto> QStr ''400'']
   \<and> prints_apart nodejs
        (parseOptions nodejs app_server [''width'' \<mapsto> QStr ''300''])
        (parseOptions nodejs app_server [''width'' \<mapsto> QStr ''400''])
   \<and> loadCacheName nodejs ''/photo.jpg'' (parseOptions nodejs app_server [''width'' \<mapsto> QStr ''300''])
     \<noteq> loadCacheName nodejs ''/photo.jpg'' (parseOptions nodejs app_server [''width'' \<mapsto> QStr ''400''])"
proof -
  have h1: "parseOptions nodejs app_server [''width'' \<mapsto> QStr ''300'']
     \<noteq> parseOptions nodejs app_server [''width'' \<mapsto> QStr ''400'']"
    by (simp add: width_300 width_400)
  have h2: "prints_apart nodejs
        (parseOptions nodejs app_server [''width'' \<mapsto> QStr ''300''])
        (parseOptions nodejs app_server [''width'' \<mapsto> QStr ''400''])"
    by (simp add: width_300 width_400 prints_apart_def getProp_def nodejs_texts numeric_text_def)
  have h3: "slug nodejs (unsluggedName nodejs ''/photo.jpg''
                (parseOptions nodejs app_server [''width'' \<mapsto> QStr ''300'']))
            = slug nodejs (unsluggedName nodejs ''/photo.jpg''
                (parseOptions nodejs app_server [''width'' \<mapsto> QStr ''400'']))
          \<longrightarrow> unsluggedName nodejs ''/photo.jpg''
                (parseOptions nodejs app_server [''width'' \<mapsto> QStr ''300''])
            = unsluggedName nodejs ''/photo.jpg''
                (parseOptions nodejs app_server [''width'' \<mapsto> QStr ''400''])"
    by (simp add: width_300 width_400 slug_width_300 slug_width_400)
  from cache_key_injective [OF h1 h2 h3] h1 h2 show ?thesis
    by blast
qed

text \<open>
  A collision class of a slug that replaces runs of symbols by one separator: the sign of
  a number is lost, so the widths 5 and -5 resolve to different options and to one key.
\<close>

lemma sign_collision:
  "parseOptions nodejs this [''width'' \<mapsto> QStr ''5'']
     \<noteq> parseOptions nodejs this [''width'' \<mapsto> QStr ''-5'']
   \<and> loadCacheName nodejs ''/photo.jpg'' (parseOptions nodejs this [''width'' \<mapsto> QStr ''5''])
     = loadCacheName nodejs ''/photo.jpg'' (parseOptions nodejs this [''width'' \<mapsto> QStr ''-5''])"
proof -
  have c: "unsluggedName nodejs ''/photo.jpg''
       [(''width'', Num (Finite 5)), (''height'', Num (Finite 1080)), (''quality'', Num (Finite 80)),
        (''ext'', Str ''webp''), (''resizeMode'', Str ''cover'')]
    = ''-width-5-height-1080-quality-80-ext-webp-resizeMode-cover-/photo''"
    by (simp add: unsluggedName_def Object_keys_def getProp_def nodejs_texts substring_def)
  have d: "unsluggedName nodejs ''/photo.jpg''
       [(''width'', Num (Finite (- 5))), (''height'', Num (Finite 1080)), (''quality'', Num (Finite 80)),
        (''ext'', Str ''webp''), (''resizeMode'', Str ''cover'')]
    = ''-width--5-height-1080-quality-80-ext-webp-resizeMode-cover-/photo''"
    by (simp add: unsluggedName_def Object_keys_def getProp_def nodejs_texts substring_def)
  show ?thesis
    by (simp add: width_5 width_minus_5 loadCacheName_unslugged c d getProp_def)
       (simp add: nodejs_def node_def slugify_defs)
qed

text \<open>
  Claim C10. For a request path without a dot, stripping the extension leaves the empty
  text, so two such paths with the same resolved options derive the same cache key.
\<close>

theorem extensionless_paths_share_key:
  assumes "CHR ''.'' \<notin> set p1" and "CHR ''.'' \<notin> set p2"
  shows "substring p1 0 (lastIndexOf p1 CHR ''.'') = []
       \<and> loadCacheName rt p1 options = loadCacheName rt p2 options"
  using assms by (simp add: loadCacheName_def substring_def lastIndexOf_absent)

theorem extensionless_paths_share_key_witness:
  "CHR ''.'' \<notin> set ''/photo'' \<and> CHR ''.'' \<notin> set ''/other/picture''
   \<and> substring ''/photo'' 0 (lastIndexOf ''/photo'' CHR ''.'') = []
   \<and> loadCacheName nodejs ''/photo'' (parseOptions nodejs app_server Map.empty)
      = loadCacheName nodejs ''/other/picture'' (parseOptions nodejs app_server Map.empty)"
proof -
  have h1: "CHR ''.'' \<notin> set ''/photo''"
    by simp
  have h2: "CHR ''.'' \<notin> set ''/other/picture''"
    by simp
  from extensionless_paths_share_key [OF h1 h2] h1 h2 show ?thesis
    by blast
qed

section \<open>Response policy\<close>

text \<open>
  Claim C2. On a success path the response should carry
  \<open>Cache-Control: public, max-age=<cacheTime in seconds>\<close>, 604800 for the one week of
  \<open>app.ts\<close>. The headers are computed once, by \<open>setFileHeaders\<close>, and the number of
  milliseconds is written into \<open>max-age\<close> as it is: the server of \<open>app.ts\<close> answers
  a cache hit with \<open>max-age=604800000\<close>, next to an \<open>Expires\<close> one week after startup.
\<close>

theorem app_headers:
  "cacheTime (config app_server) = Finite 604800000
   \<and> fileHeaders app_server =
       [(''Cache-Control'', ''public, max-age=604800000''),
        (''Expires'', ''Tue, 21 Nov 2023 22:13:20 GMT'')]
   \<and> calls (middleware nodejs app_server photo_request cache_hit) =
       [SendFile
          (path_join nodejs ''/app/cache''
             (loadCacheName nodejs ''/photo.jpg'' (parseOptions nodejs app_server Map.empty)))
          (Some [(''Cache-Control'', ''public, max-age=604800000''),
                 (''Expires'', ''Tue, 21 Nov 2023 22:13:20 GMT'')])]"
proof -
  have "calls (middleware nodejs app_server photo_request cache_hit) =
       [SendFile
          (path_join nodejs (cacheDir (config app_server))
             (loadCacheName nodejs ''/photo.jpg'' (parseOptions nodejs app_server Map.empty)))
          (Some (fileHeaders app_server))]"
    by (simp add: middleware_def Let_def photo_request_def cache_hit_def)
  then show ?thesis
    by (simp add: app_server_eq app_config_def)
qed





section \<open>Bootstrap validator\<close>

text \<open>The promise of \<open>init\<close> is rejected exactly when a start-up check fails, and the
  constructor returns an object in every case.\<close>

lemma init_rejects_iff:
  "(\<exists>e. fst (init rt fs cfg this) = Inl e) \<longleftrightarrow>
     (\<not> fs_exists fs (cacheDir cfg) \<or> \<not> fs_isDirectory fs (cacheDir cfg)
      \<or> \<not> fs_writable fs (cacheDir cfg)
      \<or> \<not> fs_exists fs (imgPath cfg) \<or> \<not> fs_isDirectory fs (imgPath cfg)
      \<or> \<not> fs_writable fs (imgPath cfg)
      \<or> (return404 cfg \<noteq> Some True \<and> \<not> fs_exists fs (defaultImg cfg)))"
  by (auto simp: init_def validateWritableDir_def validateDefaultImgExists_def setFileHeaders_def
        mergeConfig_def defaultConfig_def Let_def split: sum.splits option.splits if_splits)

lemma ImgServer_new_returns: "\<exists>s. ImgServer_new rt fs cfg = Inr s"
  by (simp add: ImgServer_new_def)

text \<open>
  Claim C8. Constructing the server should fail, raising a descriptive error to the
  caller, when a configured directory is missing. With the configuration of \<open>app.ts\<close> on
  a file system without \<open>/app/cache\<close>, the error only rejects the promise of \<open>init\<close>;
  the constructor returns a server object, whose headers have not been set.
\<close>

theorem constructor_swallows_error:
  "fst (init nodejs empty_fs app_config (fieldInitialisers app_config)) =
     Inl (Error ''/app/cache does not exist'')
   \<and> ImgServer_new nodejs empty_fs app_config =
       Inr \<lparr> config = app_config, timeoutFunction = None, cacheName = None, cachePath = None,
             fileHeaders = [(''Cache-Control'', []), (''Expires'', [])] \<rparr>"
  by (simp add: ImgServer_new_def init_def validateWritableDir_def empty_fs_def app_config_def
        mergeConfig_def fieldInitialisers_def)

end
